theory Spec2Isabelle
  imports Complex_Main "HOL-Library.AList"
begin

section \<open>JavaScript numbers\<close>

text \<open>
  Every quantity of the trading services is a JavaScript \<open>number\<close>. The model keeps the
  four kinds of value that decide the control flow of the code: finite values, the two
  infinities and NaN. Finite arithmetic is exact (the rounding of IEEE doubles, overflow
  to infinity and the sign of zero are abstracted: every zero is \<open>+0\<close>); division by
  zero, arithmetic on infinities and every comparison with NaN follow ECMAScript.
\<close>

datatype jsnum = Finite real | PosInf | NegInf | NaN

fun js_neg :: "jsnum \<Rightarrow> jsnum" where
  "js_neg (Finite a) = Finite (- a)"
| "js_neg PosInf = NegInf"
| "js_neg NegInf = PosInf"
| "js_neg NaN = NaN"

fun js_add :: "jsnum \<Rightarrow> jsnum \<Rightarrow> jsnum" where
  "js_add (Finite a) (Finite b) = Finite (a + b)"
| "js_add (Finite a) PosInf = PosInf"
| "js_add (Finite a) NegInf = NegInf"
| "js_add PosInf (Finite b) = PosInf"
| "js_add NegInf (Finite b) = NegInf"
| "js_add PosInf PosInf = PosInf"
| "js_add NegInf NegInf = NegInf"
| "js_add PosInf NegInf = NaN"
| "js_add NegInf PosInf = NaN"
| "js_add NaN b = NaN"
| "js_add a NaN = NaN"

definition js_sub :: "jsnum \<Rightarrow> jsnum \<Rightarrow> jsnum" where
  "js_sub a b = js_add a (js_neg b)"

fun js_mul :: "jsnum \<Rightarrow> jsnum \<Rightarrow> jsnum" where
  "js_mul (Finite a) (Finite b) = Finite (a * b)"
| "js_mul (Finite a) PosInf = (if a = 0 then NaN else if 0 < a then PosInf else NegInf)"
| "js_mul (Finite a) NegInf = (if a = 0 then NaN else if 0 < a then NegInf else PosInf)"
| "js_mul PosInf (Finite b) = (if b = 0 then NaN else if 0 < b then PosInf else NegInf)"
| "js_mul NegInf (Finite b) = (if b = 0 then NaN else if 0 < b then NegInf else PosInf)"
| "js_mul PosInf PosInf = PosInf"
| "js_mul NegInf NegInf = PosInf"
| "js_mul PosInf NegInf = NegInf"
| "js_mul NegInf PosInf = NegInf"
| "js_mul NaN b = NaN"
| "js_mul a NaN = NaN"

fun js_div :: "jsnum \<Rightarrow> jsnum \<Rightarrow> jsnum" where
  "js_div (Finite a) (Finite b) =
     (if b = 0 then (if a = 0 then NaN else if 0 < a then PosInf else NegInf)
      else Finite (a / b))"
| "js_div (Finite a) PosInf = Finite 0"
| "js_div (Finite a) NegInf = Finite 0"
| "js_div PosInf (Finite b) = (if b < 0 then NegInf else PosInf)"
| "js_div NegInf (Finite b) = (if b < 0 then PosInf else NegInf)"
| "js_div PosInf PosInf = NaN"
| "js_div NegInf NegInf = NaN"
| "js_div PosInf NegInf = NaN"
| "js_div NegInf PosInf = NaN"
| "js_div NaN b = NaN"
| "js_div a NaN = NaN"

text \<open>The comparison \<open>a > b\<close>: false as soon as one side is NaN.\<close>

fun js_gt :: "jsnum \<Rightarrow> jsnum \<Rightarrow> bool" where
  "js_gt (Finite a) (Finite b) = (b < a)"
| "js_gt (Finite a) PosInf = False"
| "js_gt (Finite a) NegInf = True"
| "js_gt PosInf (Finite b) = True"
| "js_gt NegInf (Finite b) = False"
| "js_gt PosInf PosInf = False"
| "js_gt NegInf NegInf = False"
| "js_gt PosInf NegInf = True"
| "js_gt NegInf PosInf = False"
| "js_gt NaN b = False"
| "js_gt a NaN = False"

text \<open>The comparison \<open>a <= b\<close>.\<close>

definition js_le :: "jsnum \<Rightarrow> jsnum \<Rightarrow> bool" where
  "js_le a b = (a \<noteq> NaN \<and> b \<noteq> NaN \<and> \<not> js_gt a b)"

text \<open>\<open>Math.min\<close>, \<open>Math.max\<close>, \<open>Math.abs\<close>, \<open>Math.ceil\<close>, \<open>Math.log\<close>.\<close>

definition js_min :: "jsnum \<Rightarrow> jsnum \<Rightarrow> jsnum" where
  "js_min a b = (if a = NaN \<or> b = NaN then NaN else if js_gt a b then b else a)"

definition js_max :: "jsnum \<Rightarrow> jsnum \<Rightarrow> jsnum" where
  "js_max a b = (if a = NaN \<or> b = NaN then NaN else if js_gt a b then a else b)"

fun js_abs :: "jsnum \<Rightarrow> jsnum" where
  "js_abs (Finite a) = Finite \<bar>a\<bar>"
| "js_abs PosInf = PosInf"
| "js_abs NegInf = PosInf"
| "js_abs NaN = NaN"

fun js_ceil :: "jsnum \<Rightarrow> jsnum" where
  "js_ceil (Finite a) = Finite (of_int \<lceil>a\<rceil>)"
| "js_ceil PosInf = PosInf"
| "js_ceil NegInf = NegInf"
| "js_ceil NaN = NaN"

fun js_log :: "jsnum \<Rightarrow> jsnum" where
  "js_log (Finite a) = (if a < 0 then NaN else if a = 0 then NegInf else Finite (ln a))"
| "js_log PosInf = PosInf"
| "js_log NegInf = NaN"
| "js_log NaN = NaN"

text \<open>
  Truthiness of a number (\<open>0\<close> and NaN are falsy) and the operator \<open>a || b\<close> on numbers.
  An optional number (\<open>number | undefined\<close>) is a \<open>jsnum option\<close>: \<open>undefined\<close> is
  falsy, and it is NaN wherever it enters arithmetic.
\<close>

fun js_truthy :: "jsnum \<Rightarrow> bool" where
  "js_truthy (Finite a) = (a \<noteq> 0)"
| "js_truthy PosInf = True"
| "js_truthy NegInf = True"
| "js_truthy NaN = False"

definition js_or :: "jsnum \<Rightarrow> jsnum \<Rightarrow> jsnum" where
  "js_or a b = (if js_truthy a then a else b)"

fun opt_truthy :: "jsnum option \<Rightarrow> bool" where
  "opt_truthy None = False"
| "opt_truthy (Some a) = js_truthy a"

fun opt_or :: "jsnum option \<Rightarrow> jsnum \<Rightarrow> jsnum" where
  "opt_or None b = b"
| "opt_or (Some a) b = js_or a b"

fun opt_num :: "jsnum option \<Rightarrow> jsnum" where
  "opt_num None = NaN"
| "opt_num (Some a) = a"

section \<open>Shared trading types (types/index.ts)\<close>

datatype position_side = LONG | SHORT

record Position =
  pos_symbol :: string
  pos_side :: position_side
  pos_size :: jsnum
  pos_entryPrice :: jsnum
  pos_markPrice :: jsnum
  pos_unrealizedPnl :: jsnum
  pos_leverage :: jsnum
  pos_marginUsed :: jsnum
  pos_liquidationPrice :: "jsnum option"

text \<open>
  \<open>Signal.action\<close> is declared as BUY, SELL or CLOSE; the aggregation code also tests the
  action against the string HOLD, so the model keeps that fourth value.
\<close>

datatype action = BUY | SELL | CLOSE | HOLD

record Signal =
  sig_symbol :: string
  sig_action :: action
  sig_confidence :: jsnum
  sig_targetPrice :: "jsnum option"
  sig_stopLoss :: "jsnum option"
  sig_strategy :: string
  sig_timestamp :: nat

datatype risk_level = LOW | MEDIUM | HIGH | CRITICAL

record RiskMetrics =
  totalBalance :: jsnum
  availableBalance :: jsnum
  totalUnrealizedPnl :: jsnum
  rm_dailyPnL :: jsnum
  rm_maxDrawdown :: jsnum
  riskLevel :: risk_level
  isTradeAllowed :: bool
  marginUsage :: jsnum
  liquidationRisk :: jsnum

record PositionSize =
  ps_size :: jsnum
  ps_leverage :: jsnum
  ps_stopLoss :: jsnum
  ps_margin :: jsnum

datatype trading_error = RiskError | TradingError | TypeError

section \<open>Risk engine (services/RiskEngineService.ts)\<close>

record RiskLimits =
  dailyLossLimit :: jsnum
  maxLeverage :: jsnum
  maxPositionSize :: jsnum
  lim_maxDrawdown :: jsnum
  maxOpenPositions :: jsnum
  concentrationLimit :: jsnum
  liquidationBuffer :: jsnum

text \<open>The rejection reasons; the constructor arguments are the numbers the message quotes.\<close>

datatype reason =
  TradingNotAllowed
| LeverageExceeds jsnum jsnum
| PositionSizeExceeds jsnum jsnum

record RiskAssessment =
  ra_symbol :: string
  isAllowed :: bool
  ra_riskLevel :: risk_level
  reasons :: "reason list"
  recommendedSize :: jsnum
  recommendedLeverage :: jsnum
  maxAllowedSize :: jsnum
  ra_stopLoss :: jsnum

text \<open>The fields of the service object that the risk computations read and write.\<close>

record risk_state =
  riskLimits :: RiskLimits
  currentRiskMetrics :: "RiskMetrics option"
  positions :: "(string \<times> Position) list"
  dailyPnL :: jsnum
  maxDrawdown :: jsnum
  balanceHistory :: "jsnum list"

text \<open>
  What the collaborators answer during one snapshot: \<open>None\<close> is a call that throws.
  \<open>env_balance\<close> is the pair (total, free) of the exchange balance, \<open>env_dailyPnl\<close> the
  parsed result of the daily-PnL query.
\<close>

record risk_env =
  env_balance :: "(jsnum \<times> jsnum) option"
  env_positions :: "Position list option"
  env_dailyPnl :: "jsnum option"

definition loadCurrentPositions :: "risk_env \<Rightarrow> risk_state \<Rightarrow> risk_state" where
  "loadCurrentPositions env st =
     (case env_positions env of
        None \<Rightarrow> st
      | Some ps \<Rightarrow> st\<lparr>positions := foldl (\<lambda>m p. AList.update (pos_symbol p) p m) [] ps\<rparr>)"

definition calculateDailyPnL :: "risk_env \<Rightarrow> risk_state \<Rightarrow> risk_state" where
  "calculateDailyPnL env st =
     (case env_dailyPnl env of
        None \<Rightarrow> st\<lparr>dailyPnL := Finite 0\<rparr>
      | Some v \<Rightarrow> st\<lparr>dailyPnL := v\<rparr>)"

definition updateBalanceHistory :: "jsnum \<Rightarrow> risk_state \<Rightarrow> risk_state" where
  "updateBalanceHistory currentBalance st =
     (let h = balanceHistory st @ [currentBalance]
      in st\<lparr>balanceHistory := (if 100 < length h then tl h else h)\<rparr>)"

fun drawdownLoop :: "jsnum \<Rightarrow> jsnum \<Rightarrow> jsnum list \<Rightarrow> jsnum" where
  "drawdownLoop peak maxDD [] = maxDD"
| "drawdownLoop peak maxDD (balance # rest) =
     (let peak' = (if js_gt balance peak then balance else peak);
          drawdown = js_mul (js_div (js_sub peak' balance) peak') (Finite 100)
      in drawdownLoop peak' (if js_gt drawdown maxDD then drawdown else maxDD) rest)"

definition calculateMaxDrawdown :: "risk_state \<Rightarrow> risk_state" where
  "calculateMaxDrawdown st =
     (case balanceHistory st of
        [] \<Rightarrow> st\<lparr>maxDrawdown := Finite 0\<rparr>
      | [b] \<Rightarrow> st\<lparr>maxDrawdown := Finite 0\<rparr>
      | b # rest \<Rightarrow> st\<lparr>maxDrawdown := drawdownLoop b (Finite 0) (b # rest)\<rparr>)"

definition dailyLossPercent :: "risk_state \<Rightarrow> jsnum \<Rightarrow> jsnum" where
  "dailyLossPercent st tb = js_mul (js_abs (js_div (dailyPnL st) tb)) (Finite 100)"

definition determineRiskLevel :: "risk_state \<Rightarrow> jsnum \<Rightarrow> jsnum \<Rightarrow> jsnum \<Rightarrow> risk_level" where
  "determineRiskLevel st tb unrealizedPnl usage =
     (let dlp = js_mul (js_abs (js_div (dailyPnL st) tb)) (Finite 100);
          lossLimit = dailyLossLimit (riskLimits st)
      in if js_gt dlp (js_mul lossLimit (Finite 0.8)) \<or> js_gt usage (Finite 80) then CRITICAL
         else if js_gt dlp (js_mul lossLimit (Finite 0.6)) \<or> js_gt usage (Finite 60) then HIGH
         else if js_gt dlp (js_mul lossLimit (Finite 0.3)) \<or> js_gt usage (Finite 40) then MEDIUM
         else LOW)"

fun liquidationLoop :: "jsnum \<Rightarrow> jsnum \<Rightarrow> Position list \<Rightarrow> jsnum \<times> jsnum" where
  "liquidationLoop risk val [] = (risk, val)"
| "liquidationLoop risk val (p # rest) =
     (if opt_truthy (pos_liquidationPrice p) \<and> js_truthy (pos_markPrice p) then
        (let distanceToLiquidation =
               js_div (js_abs (js_sub (pos_markPrice p) (opt_num (pos_liquidationPrice p))))
                 (pos_markPrice p);
             positionValue = js_mul (pos_size p) (pos_markPrice p)
         in liquidationLoop
              (js_add risk (js_mul (js_sub (Finite 1) distanceToLiquidation) positionValue))
              (js_add val positionValue) rest)
      else liquidationLoop risk val rest)"

definition calculateLiquidationRisk :: "risk_state \<Rightarrow> jsnum" where
  "calculateLiquidationRisk st =
     (case liquidationLoop (Finite 0) (Finite 0) (map snd (positions st)) of
        (totalLiquidationRisk, totalPositionValue) \<Rightarrow>
          if js_gt totalPositionValue (Finite 0)
          then js_mul (js_div totalLiquidationRisk totalPositionValue) (Finite 100)
          else Finite 0)"

text \<open>
  One recomputation of the risk snapshot. When the balance call throws, the handler of
  \<open>updateRiskMetrics\<close> logs the error and the state is left as it was. The cache and
  database writes that follow the assignment of the snapshot cannot undo it.
\<close>

definition updateRiskMetrics :: "risk_env \<Rightarrow> risk_state \<Rightarrow> risk_state" where
  "updateRiskMetrics env st =
     (case env_balance env of
        None \<Rightarrow> st
      | Some (tot, free) \<Rightarrow>
          (let totalB = js_or tot (Finite 0);
               availableB = js_or free (Finite 0);
               st1 = loadCurrentPositions env st;
               unrealized = foldl (\<lambda>s p. js_add s (pos_unrealizedPnl p)) (Finite 0)
                              (map snd (positions st1));
               st2 = calculateDailyPnL env st1;
               st3 = updateBalanceHistory (js_add totalB unrealized) st2;
               st4 = calculateMaxDrawdown st3;
               totalMarginUsed = foldl (\<lambda>s p. js_add s (pos_marginUsed p)) (Finite 0)
                                   (map snd (positions st1));
               usage = (if js_gt totalB (Finite 0)
                        then js_mul (js_div totalMarginUsed totalB) (Finite 100)
                        else Finite 0);
               level = determineRiskLevel st4 totalB unrealized usage
           in st4\<lparr>currentRiskMetrics := Some
                \<lparr>totalBalance = totalB,
                 availableBalance = availableB,
                 totalUnrealizedPnl = unrealized,
                 rm_dailyPnL = dailyPnL st4,
                 rm_maxDrawdown = maxDrawdown st4,
                 riskLevel = level,
                 isTradeAllowed = (level \<noteq> CRITICAL),
                 marginUsage = usage,
                 liquidationRisk = calculateLiquidationRisk st4\<rparr>\<rparr>))"

text \<open>The classification as the specification words it, over a loss percentage and a
  margin usage.\<close>

definition spec_riskLevel :: "jsnum \<Rightarrow> jsnum \<Rightarrow> jsnum \<Rightarrow> risk_level" where
  "spec_riskLevel dlp lossLimit usage =
     (if js_gt dlp (js_mul (Finite 0.8) lossLimit) \<or> js_gt usage (Finite 80) then CRITICAL
      else if js_gt dlp (js_mul (Finite 0.6) lossLimit) \<or> js_gt usage (Finite 60) then HIGH
      else if js_gt dlp (js_mul (Finite 0.3) lossLimit) \<or> js_gt usage (Finite 40) then MEDIUM
      else LOW)"

record position_data =
  pd_symbol :: string
  pd_side :: position_side
  pd_size :: jsnum
  pd_leverage :: jsnum
  pd_price :: jsnum

definition validatePosition :: "risk_state \<Rightarrow> position_data \<Rightarrow> RiskAssessment" where
  "validatePosition st pd =
     (let assessment = \<lparr>ra_symbol = pd_symbol pd, isAllowed = True, ra_riskLevel = LOW,
                        reasons = [], recommendedSize = pd_size pd,
                        recommendedLeverage = pd_leverage pd, maxAllowedSize = pd_size pd,
                        ra_stopLoss = Finite 0\<rparr>
      in if \<not> (case currentRiskMetrics st of None \<Rightarrow> False | Some m \<Rightarrow> isTradeAllowed m) then
           assessment\<lparr>isAllowed := False, reasons := [TradingNotAllowed],
                      ra_riskLevel := CRITICAL\<rparr>
         else
           (let a1 = (if js_gt (pd_leverage pd) (maxLeverage (riskLimits st)) then
                        assessment\<lparr>isAllowed := False,
                          reasons := reasons assessment @
                            [LeverageExceeds (pd_leverage pd) (maxLeverage (riskLimits st))],
                          recommendedLeverage := maxLeverage (riskLimits st)\<rparr>
                      else assessment);
                positionValue = js_mul (pd_size pd) (pd_price pd);
                totalB = (case currentRiskMetrics st of None \<Rightarrow> Finite 0
                          | Some m \<Rightarrow> js_or (totalBalance m) (Finite 0));
                positionPercent = js_mul (js_div positionValue totalB) (Finite 100);
                a2 = (if js_gt positionPercent (maxPositionSize (riskLimits st)) then
                        (let maxAllowed =
                               js_div (js_div (js_mul totalB (maxPositionSize (riskLimits st)))
                                         (Finite 100)) (pd_price pd)
                         in a1\<lparr>isAllowed := False,
                              reasons := reasons a1 @
                                [PositionSizeExceeds positionPercent
                                   (maxPositionSize (riskLimits st))],
                              maxAllowedSize := maxAllowed,
                              recommendedSize := maxAllowed\<rparr>)
                      else a1);
                riskAmount = js_mul totalB (Finite 0.02);
                stopLossDistance = js_div riskAmount (pd_size pd)
            in a2\<lparr>ra_stopLoss := (if pd_side pd = LONG
                                    then js_sub (pd_price pd) stopLossDistance
                                    else js_add (pd_price pd) stopLossDistance)\<rparr>))"

text \<open>
  \<open>Config.DEFAULT_LEVERAGE\<close> is a constant of the configuration module; it is the first
  argument here.
\<close>

definition calculateOptimalPositionSize ::
  "jsnum \<Rightarrow> risk_state \<Rightarrow> Signal \<Rightarrow> jsnum \<Rightarrow> trading_error + PositionSize" where
  "calculateOptimalPositionSize DEFAULT_LEVERAGE st signal currentPrice =
     (case currentRiskMetrics st of
        None \<Rightarrow> Inl RiskError
      | Some m \<Rightarrow>
          (let maxRiskPerTrade = Finite 0.02;
               confidenceMultiplier = js_div (sig_confidence signal) (Finite 100);
               totalB = totalBalance m;
               baseSize0 = js_div (js_mul (js_mul totalB maxRiskPerTrade) confidenceMultiplier)
                             currentPrice;
               maxPositionValue =
                 js_mul totalB (js_div (maxPositionSize (riskLimits st)) (Finite 100));
               maxSize = js_div maxPositionValue currentPrice;
               baseSize = (if js_gt baseSize0 maxSize then maxSize else baseSize0);
               leverage =
                 js_min
                   (js_ceil (js_mul DEFAULT_LEVERAGE
                      (js_add (Finite 1)
                         (js_div (js_sub (sig_confidence signal) (Finite 50)) (Finite 100)))))
                   (maxLeverage (riskLimits st));
               stopLossDistance =
                 (if opt_truthy (sig_stopLoss signal)
                  then js_abs (js_sub currentPrice (opt_num (sig_stopLoss signal)))
                  else js_mul currentPrice (Finite 0.02));
               stopLoss = (if sig_action signal = BUY
                           then js_sub currentPrice stopLossDistance
                           else js_add currentPrice stopLossDistance);
               margin = js_div (js_mul baseSize currentPrice) leverage
           in Inr \<lparr>ps_size = baseSize, ps_leverage = leverage, ps_stopLoss = stopLoss,
                   ps_margin = margin\<rparr>))"

section \<open>Signal aggregation (StrategyEngineService)\<close>

text \<open>
  The fields of a strategy configuration that aggregation reads. The configurations are
  held in a \<open>Map\<close> keyed by strategy id: an association list in insertion order.
  The free-text \<open>reasoning\<close> of a signal is not modelled.
\<close>

record StrategyConfig =
  cfg_id :: string
  cfg_enabled :: bool
  cfg_symbols :: "string list"
  cfg_weight :: jsnum

record SignalAggregation =
  agg_symbol :: string
  agg_signals :: "Signal list"
  aggregatedSignal :: "Signal option"
  agg_confidence :: jsnum
  agg_timestamp :: nat

text \<open>Grouping by action: an object whose keys are in order of first insertion.\<close>

fun group_insert :: "Signal \<Rightarrow> (action \<times> Signal list) list \<Rightarrow> (action \<times> Signal list) list" where
  "group_insert s [] = [(sig_action s, [s])]"
| "group_insert s ((a, ss) # rest) =
     (if a = sig_action s then (a, ss @ [s]) # rest else (a, ss) # group_insert s rest)"

definition groupSignals :: "Signal list \<Rightarrow> (action \<times> Signal list) list" where
  "groupSignals signals = foldl (\<lambda>groups s. group_insert s groups) [] signals"

definition signalWeight :: "(string \<times> StrategyConfig) list \<Rightarrow> Signal \<Rightarrow> jsnum" where
  "signalWeight cfgs s =
     (case map_of cfgs (sig_strategy s) of
        None \<Rightarrow> Finite 0.33
      | Some c \<Rightarrow> js_or (cfg_weight c) (Finite 0.33))"

definition actionScore :: "(string \<times> StrategyConfig) list \<Rightarrow> Signal list \<Rightarrow> jsnum" where
  "actionScore cfgs ss =
     foldl (\<lambda>score s. js_add score (js_mul (sig_confidence s) (signalWeight cfgs s)))
       (Finite 0) ss"

definition actionScores ::
  "(string \<times> StrategyConfig) list \<Rightarrow> (action \<times> Signal list) list \<Rightarrow> (action \<times> jsnum) list" where
  "actionScores cfgs groups = map (\<lambda>(a, ss). (a, actionScore cfgs ss)) groups"

text \<open>\<open>Array.prototype.reduce\<close> without an initial value: a TypeError on the empty array
  (\<open>None\<close> here).\<close>

fun reduce1 :: "('a \<Rightarrow> 'a \<Rightarrow> 'a) \<Rightarrow> 'a list \<Rightarrow> 'a option" where
  "reduce1 f [] = None"
| "reduce1 f (x # xs) = Some (foldl f x xs)"

text \<open>Reading \<open>actionScores[a]\<close>: a missing key is \<open>undefined\<close>, NaN in a comparison.\<close>

definition scoreOf :: "(action \<times> jsnum) list \<Rightarrow> action \<Rightarrow> jsnum" where
  "scoreOf scores a = (case map_of scores a of None \<Rightarrow> NaN | Some v \<Rightarrow> v)"

definition bestActionOf :: "(action \<times> jsnum) list \<Rightarrow> action option" where
  "bestActionOf scores =
     reduce1 (\<lambda>a b. if js_gt (scoreOf scores a) (scoreOf scores b) then a else b)
       (map fst scores)"

definition maxPossibleScore :: "(string \<times> StrategyConfig) list \<Rightarrow> string \<Rightarrow> jsnum" where
  "maxPossibleScore cfgs symbol =
     foldl (\<lambda>sum c. js_add sum (js_mul (cfg_weight c) (Finite 100))) (Finite 0)
       (filter (\<lambda>c. cfg_enabled c \<and> symbol \<in> set (cfg_symbols c)) (map snd cfgs))"

definition averageOf :: "(Signal \<Rightarrow> jsnum option) \<Rightarrow> Signal list \<Rightarrow> jsnum option" where
  "averageOf field ss =
     (let valid = filter (\<lambda>s. opt_truthy (field s)) ss
      in if 0 < length valid
         then Some (js_div (foldl (\<lambda>sum s. js_add sum (opt_or (field s) (Finite 0)))
                              (Finite 0) valid)
                      (Finite (real (length valid))))
         else None)"

text \<open>The confidence computed from the best score and the maximal possible score.\<close>

definition aggConfidence :: "jsnum \<Rightarrow> jsnum \<Rightarrow> jsnum" where
  "aggConfidence bestScore maxPossible =
     js_min (Finite 100) (js_mul (js_div bestScore maxPossible) (Finite 100))"

text \<open>
  \<open>aggregateSignals\<close>, with the strategy configurations and the clock reading as
  arguments. The two TypeError branches are the \<open>reduce\<close> over an empty key list and the
  read of \<open>.length\<close> on a missing group.
\<close>

definition aggregateSignals ::
  "(string \<times> StrategyConfig) list \<Rightarrow> nat \<Rightarrow> string \<Rightarrow> Signal list
     \<Rightarrow> trading_error + SignalAggregation" where
  "aggregateSignals cfgs now symbol signals =
     (if length signals = 0 then
        Inr \<lparr>agg_symbol = symbol, agg_signals = signals, aggregatedSignal = None,
             agg_confidence = Finite 0, agg_timestamp = now\<rparr>
      else
        (let groupedSignals = groupSignals signals;
             scores = actionScores cfgs groupedSignals
         in case bestActionOf scores of
              None \<Rightarrow> Inl TypeError
            | Some bestAction \<Rightarrow>
                (let bestScore = scoreOf scores bestAction;
                     maxPossible = maxPossibleScore cfgs symbol;
                     confidence = aggConfidence bestScore maxPossible
                 in if js_gt confidence (Finite 50) \<and> bestAction \<noteq> HOLD then
                      (case map_of groupedSignals bestAction of
                         None \<Rightarrow> Inl TypeError
                       | Some bestSignals \<Rightarrow>
                           Inr \<lparr>agg_symbol = symbol, agg_signals = signals,
                                aggregatedSignal = Some
                                  \<lparr>sig_symbol = symbol, sig_action = bestAction,
                                   sig_confidence = confidence,
                                   sig_targetPrice = averageOf sig_targetPrice bestSignals,
                                   sig_stopLoss = averageOf sig_stopLoss bestSignals,
                                   sig_strategy = ''aggregated'', sig_timestamp = now\<rparr>,
                                agg_confidence = confidence, agg_timestamp = now\<rparr>)
                    else
                      Inr \<lparr>agg_symbol = symbol, agg_signals = signals,
                           aggregatedSignal = None, agg_confidence = confidence,
                           agg_timestamp = now\<rparr>)))"

section \<open>Order execution (services/ExecutionService.ts)\<close>

datatype order_side = SideBUY | SideSELL

datatype order_type = MARKET | LIMIT | STOP | STOP_MARKET | TAKE_PROFIT | TAKE_PROFIT_MARKET

datatype order_status = NEW | PARTIALLY_FILLED | FILLED | CANCELED | REJECTED | EXPIRED

record Order =
  ord_id :: string
  ord_symbol :: string
  ord_side :: order_side
  ord_type :: order_type
  ord_quantity :: jsnum
  ord_price :: "jsnum option"
  ord_status :: order_status
  ord_executedQty :: jsnum
  ord_averagePrice :: "jsnum option"

datatype execution_status = PENDING | EXECUTING | COMPLETED | FAILED | CANCELLED

record OrderExecution =
  oe_orderId :: string
  oe_status :: execution_status
  oe_attempts :: nat

record order_params =
  op_symbol :: string
  op_side :: order_side
  op_type :: order_type
  op_quantity :: jsnum
  op_price :: "jsnum option"

text \<open>
  The service object. The two \<open>Map\<close>s are association lists in insertion order
  (\<open>AList.update\<close> is \<open>Map.set\<close>: in place for a known key, at the end for a new one).
  \<open>executionInterval\<close> tells whether the monitoring timer is armed; \<open>idCounter\<close> counts
  the order ids drawn so far from the clock and the random source.
\<close>

record exec_state =
  simulationMode :: bool
  pendingOrders :: "(string \<times> OrderExecution) list"
  orderHistory :: "(string \<times> Order) list"
  isExecuting :: bool
  executionInterval :: bool
  simulatedBalance :: jsnum
  idCounter :: nat

text \<open>
  The collaborators of the execution service, as the answers they give; \<open>None\<close> and
  \<open>False\<close> are calls that throw.
  \<^item> \<open>env_marketPrice\<close>: the price of the cached market data of a symbol
    (\<open>Some None\<close> is a missing entry);
  \<^item> \<open>env_redisSetOk\<close>: storing the simulated execution of an order id;
  \<^item> \<open>env_dbOrder\<close>: the order row for an id (\<open>Some None\<close> is an empty result);
  \<^item> \<open>env_dbWriteOk\<close>: inserting or updating the order row of an id;
  \<^item> \<open>env_exchangeOrder\<close>: the exchange lookup, which answers null on any failure;
  \<^item> \<open>env_exchangeCancelOk\<close>, \<open>env_exchangeCloseOk\<close>, \<open>env_exchangeCreate\<close>,
    \<open>env_exchangePositions\<close>: the exchange calls of live mode;
  \<^item> \<open>env_newId\<close>: the order id made from the clock and the random source.
\<close>

record exec_env =
  env_marketPrice :: "string \<Rightarrow> jsnum option option"
  env_redisSetOk :: "string \<Rightarrow> bool"
  env_dbOrder :: "string \<Rightarrow> Order option option"
  env_dbWriteOk :: "string \<Rightarrow> bool"
  env_exchangeOrder :: "string \<Rightarrow> Order option"
  env_exchangeCancelOk :: "string \<Rightarrow> bool"
  env_exchangeCloseOk :: "string \<Rightarrow> bool"
  env_exchangeCreate :: "order_params \<Rightarrow> Order option"
  env_exchangePositions :: "Position list option"
  env_newId :: "nat \<Rightarrow> string"

definition calculateSlippage :: "jsnum \<Rightarrow> jsnum \<Rightarrow> jsnum" where
  "calculateSlippage quantity price =
     (let orderValue = js_mul quantity price;
          baseSlippage = Finite 0.05;
          volumeImpact = js_mul (js_log (js_div orderValue (Finite 10000))) (Finite 0.01)
      in js_max (Finite 0) (js_add baseSlippage volumeImpact))"

definition applySlippage :: "jsnum \<Rightarrow> order_side \<Rightarrow> jsnum \<Rightarrow> jsnum" where
  "applySlippage price side slippagePercent =
     (let slippageFactor = js_div slippagePercent (Finite 100)
      in if side = SideBUY then js_mul price (js_add (Finite 1) slippageFactor)
         else js_mul price (js_sub (Finite 1) slippageFactor))"

text \<open>
  The record of a simulated execution that \<open>simulateOrderExecution\<close> builds and stores in
  the cache, from the cached price, the order parameters and the order id: the reference
  price, the slippage, the executed price and the fee. For an order that is not a market
  order the executed price is the price of the parameters; when that is \<open>undefined\<close> it
  is NaN in the fee and the ledger, and the order keeps the undefined price.
\<close>

record SimulatedExecution =
  se_orderId :: string
  se_symbol :: string
  se_side :: order_side
  se_quantity :: jsnum
  se_price :: jsnum
  se_executedPrice :: jsnum
  se_slippage :: jsnum
  se_fee :: jsnum

definition simulatedExecution ::
  "jsnum option \<Rightarrow> order_params \<Rightarrow> string \<Rightarrow> SimulatedExecution" where
  "simulatedExecution md ps oid =
     (let currentPrice = opt_or md (opt_or (op_price ps) (Finite 0));
          slippage = calculateSlippage (op_quantity ps) currentPrice;
          executedPrice = (if op_type ps = MARKET
                           then applySlippage currentPrice (op_side ps) slippage
                           else opt_num (op_price ps));
          fee = js_mul (js_mul (op_quantity ps) executedPrice) (Finite 0.0004)
      in \<lparr>se_orderId = oid, se_symbol = op_symbol ps, se_side = op_side ps,
          se_quantity = op_quantity ps, se_price = currentPrice,
          se_executedPrice = executedPrice, se_slippage = slippage, se_fee = fee\<rparr>)"

text \<open>
  \<open>simulateOrderExecution\<close> returns the new state and the order, or \<open>None\<close> when a
  cache call throws. The balance is updated before the execution record is stored, so a
  failing store leaves the new balance in place.
\<close>

definition simulateOrderExecution ::
  "exec_env \<Rightarrow> exec_state \<Rightarrow> order_params \<Rightarrow> exec_state \<times> Order option" where
  "simulateOrderExecution env st ps =
     (case env_marketPrice env (op_symbol ps) of
        None \<Rightarrow> (st, None)
      | Some md \<Rightarrow>
          (let oid = env_newId env (idCounter st);
               execution = simulatedExecution md ps oid;
               executedPrice = se_executedPrice execution;
               fee = se_fee execution;
               cost = js_add (js_mul (op_quantity ps) executedPrice) fee;
               st1 = (if op_side ps = SideBUY
                      then st\<lparr>simulatedBalance := js_sub (simulatedBalance st) cost\<rparr>
                      else st\<lparr>simulatedBalance :=
                                js_add (simulatedBalance st) (js_sub cost fee)\<rparr>);
               st2 = st1\<lparr>idCounter := Suc (idCounter st1)\<rparr>;
               orderPrice = (if op_type ps = MARKET then Some executedPrice
                             else op_price ps);
               order = \<lparr>ord_id = oid, ord_symbol = op_symbol ps, ord_side = op_side ps,
                        ord_type = op_type ps, ord_quantity = op_quantity ps,
                        ord_price = orderPrice, ord_status = FILLED,
                        ord_executedQty = op_quantity ps,
                        ord_averagePrice = orderPrice\<rparr>
           in if env_redisSetOk env oid then (st2, Some order) else (st2, None)))"

definition createOrder ::
  "exec_env \<Rightarrow> exec_state \<Rightarrow> order_params \<Rightarrow> exec_state \<times> (trading_error + Order)" where
  "createOrder env st ps =
     (case (if simulationMode st then simulateOrderExecution env st ps
            else (st, env_exchangeCreate env ps)) of
        (st1, None) \<Rightarrow> (st1, Inl TradingError)
      | (st1, Some order) \<Rightarrow>
          (let st2 = st1\<lparr>orderHistory := AList.update (ord_id order) order (orderHistory st1)\<rparr>
           in if \<not> env_dbWriteOk env (ord_id order) then (st2, Inl TradingError)
              else (st2\<lparr>pendingOrders :=
                          AList.update (ord_id order)
                            \<lparr>oe_orderId = ord_id order, oe_status = PENDING, oe_attempts = 0\<rparr>
                            (pendingOrders st2)\<rparr>,
                    Inr order)))"

text \<open>\<open>getOrder\<close>: the outer \<open>None\<close> is a throwing database query.\<close>

definition getOrder :: "exec_env \<Rightarrow> exec_state \<Rightarrow> string \<Rightarrow> Order option option" where
  "getOrder env st orderId =
     (case map_of (orderHistory st) orderId of
        Some cached \<Rightarrow> Some (Some cached)
      | None \<Rightarrow>
          (case env_dbOrder env orderId of
             None \<Rightarrow> None
           | Some (Some row) \<Rightarrow> Some (Some row)
           | Some None \<Rightarrow>
               (if \<not> simulationMode st then Some (env_exchangeOrder env orderId)
                else Some None)))"

definition cancelOrder :: "exec_env \<Rightarrow> exec_state \<Rightarrow> string \<Rightarrow> exec_state \<times> bool" where
  "cancelOrder env st orderId =
     (case getOrder env st orderId of
        None \<Rightarrow> (st, False)
      | Some None \<Rightarrow> (st, False)
      | Some (Some order) \<Rightarrow>
          (if simulationMode st then
             (let st1 = st\<lparr>orderHistory :=
                            AList.update orderId (order\<lparr>ord_status := CANCELED\<rparr>)
                              (orderHistory st)\<rparr>
              in if env_dbWriteOk env orderId
                 then (st1\<lparr>pendingOrders := AList.delete orderId (pendingOrders st1)\<rparr>, True)
                 else (st1, False))
           else if env_exchangeCancelOk env orderId
             then (st\<lparr>pendingOrders := AList.delete orderId (pendingOrders st)\<rparr>, True)
             else (st, False)))"

text \<open>
  Position reconciliation in simulated mode: one step of the replay for one order of the
  history, then the whole replay and the filter of the open-position view.
\<close>

definition replayOrder :: "(string \<times> Position) list \<Rightarrow> Order \<Rightarrow> (string \<times> Position) list" where
  "replayOrder ps order =
     (if ord_status order = FILLED then
        (case map_of ps (ord_symbol order) of
           Some existing \<Rightarrow>
             (let size' = (if ord_side order = SideBUY
                           then js_add (pos_size existing) (ord_executedQty order)
                           else js_sub (pos_size existing) (ord_executedQty order));
                  e1 = existing\<lparr>pos_size := size'\<rparr>;
                  e2 = (if js_gt size' (Finite 0) then
                          e1\<lparr>pos_entryPrice :=
                               js_div
                                 (js_add
                                    (js_mul (pos_entryPrice e1)
                                       (js_sub size' (ord_executedQty order)))
                                    (js_mul (opt_num (ord_averagePrice order))
                                       (ord_executedQty order)))
                                 size'\<rparr>
                        else e1)
              in AList.update (ord_symbol order) e2 ps)
         | None \<Rightarrow>
             AList.update (ord_symbol order)
               \<lparr>pos_symbol = ord_symbol order,
                pos_side = (if ord_side order = SideBUY then LONG else SHORT),
                pos_size = ord_executedQty order,
                pos_entryPrice = opt_num (ord_averagePrice order),
                pos_markPrice = opt_num (ord_averagePrice order),
                pos_unrealizedPnl = Finite 0,
                pos_leverage = Finite 1,
                pos_marginUsed =
                  js_mul (ord_executedQty order) (opt_num (ord_averagePrice order)),
                pos_liquidationPrice = None\<rparr> ps)
      else ps)"

definition getSimulatedPositions :: "exec_state \<Rightarrow> Position list" where
  "getSimulatedPositions st =
     filter (\<lambda>pos. js_gt (pos_size pos) (Finite 0))
       (map snd (foldl replayOrder [] (map snd (orderHistory st))))"

definition getPositions :: "exec_env \<Rightarrow> exec_state \<Rightarrow> Position list option" where
  "getPositions env st =
     (if simulationMode st then Some (getSimulatedPositions st)
      else env_exchangePositions env)"

definition closeSimulatedPosition :: "exec_env \<Rightarrow> exec_state \<Rightarrow> string \<Rightarrow> exec_state \<times> bool option" where
  "closeSimulatedPosition env st symbol =
     (case find (\<lambda>pos. pos_symbol pos = symbol) (getSimulatedPositions st) of
        None \<Rightarrow> (st, Some True)
      | Some position \<Rightarrow>
          (case createOrder env st
                  \<lparr>op_symbol = symbol,
                   op_side = (if pos_side position = LONG then SideSELL else SideBUY),
                   op_type = MARKET, op_quantity = pos_size position, op_price = None\<rparr> of
             (st1, Inl e) \<Rightarrow> (st1, None)
           | (st1, Inr order) \<Rightarrow> (st1, Some True)))"

definition closePosition :: "exec_env \<Rightarrow> exec_state \<Rightarrow> string \<Rightarrow> exec_state \<times> bool" where
  "closePosition env st symbol =
     (if simulationMode st then
        (case closeSimulatedPosition env st symbol of
           (st1, None) \<Rightarrow> (st1, False)
         | (st1, Some r) \<Rightarrow> (st1, r))
      else (st, env_exchangeCloseOk env symbol))"

text \<open>
  \<open>closeAllPositions\<close> starts one \<open>closePosition\<close> per open position and awaits them
  together. In simulated mode the positions have distinct symbols and each closure reads
  and adds only orders of its own symbol, so the closures are run here one after the
  other: another interleaving permutes the ids drawn and the order of the ledger updates.
\<close>

fun closeEach :: "exec_env \<Rightarrow> exec_state \<Rightarrow> Position list \<Rightarrow> exec_state \<times> bool list" where
  "closeEach env st [] = (st, [])"
| "closeEach env st (p # rest) =
     (case closePosition env st (pos_symbol p) of
        (st1, r) \<Rightarrow> (case closeEach env st1 rest of (st2, rs) \<Rightarrow> (st2, r # rs)))"

definition closeAllPositions :: "exec_env \<Rightarrow> exec_state \<Rightarrow> exec_state \<times> bool" where
  "closeAllPositions env st =
     (case getPositions env st of
        None \<Rightarrow> (st, False)
      | Some ps \<Rightarrow> (case closeEach env st ps of (st1, results) \<Rightarrow> (st1, list_all id results)))"

definition startOrderExecution :: "exec_state \<Rightarrow> exec_state" where
  "startOrderExecution st =
     (if isExecuting st then st else st\<lparr>isExecuting := True, executionInterval := True\<rparr>)"

definition stopOrderExecution :: "exec_state \<Rightarrow> exec_state" where
  "stopOrderExecution st =
     (if \<not> isExecuting st then st
      else (let st1 = st\<lparr>isExecuting := False\<rparr>
            in if executionInterval st1 then st1\<lparr>executionInterval := False\<rparr> else st1))"

text \<open>
  \<open>emergencyStop\<close>: the loop walks the keys of the pending map while \<open>cancelOrder\<close>
  deletes at most the key being visited, so it visits every key the map had at the start.
  The three steps catch their own failures, so the operation always runs to its end; it
  is taken as one step of the service, not interleaved with other handlers or timer ticks.
\<close>

definition cancelAllPending :: "exec_env \<Rightarrow> exec_state \<Rightarrow> exec_state" where
  "cancelAllPending env st =
     foldl (\<lambda>s orderId. fst (cancelOrder env s orderId)) st (map fst (pendingOrders st))"

definition emergencyStop :: "exec_env \<Rightarrow> exec_state \<Rightarrow> exec_state" where
  "emergencyStop env st =
     (let st1 = cancelAllPending env st;
          st2 = fst (closeAllPositions env st1)
      in stopOrderExecution st2)"

text \<open>
  \<open>handleTradingSignal\<close>, with the reply of the sizing request as an argument:
  \<open>sizing = None\<close> is a request that is rejected (no connection, or no reply within
  the timeout). Every exception is caught and logged.
\<close>

definition handleTradingSignal ::
  "exec_env \<Rightarrow> PositionSize option \<Rightarrow> exec_state \<Rightarrow> Signal \<Rightarrow> exec_state" where
  "handleTradingSignal env sizing st signal =
     (if sig_action signal = CLOSE then fst (closePosition env st (sig_symbol signal))
      else
        (case env_marketPrice env (sig_symbol signal) of
           None \<Rightarrow> st
         | Some None \<Rightarrow> st
         | Some (Some price) \<Rightarrow>
             (case sizing of
                None \<Rightarrow> st
              | Some positionSize \<Rightarrow>
                  if js_le (ps_size positionSize) (Finite 0) then st
                  else fst (createOrder env st
                              \<lparr>op_symbol = sig_symbol signal,
                               op_side = (if sig_action signal = BUY then SideBUY
                                          else SideSELL),
                               op_type = MARKET, op_quantity = ps_size positionSize,
                               op_price = None\<rparr>))))"

section \<open>Ranges and example inputs\<close>


text \<open>
  The three built-in strategies with their default weights, a signal without price
  targets, and the default risk limits of the constructor of the risk engine.
\<close>

definition demo_configs :: "(string \<times> StrategyConfig) list" where
  "demo_configs =
     [(''momentum'', \<lparr>cfg_id = ''momentum'', cfg_enabled = True,
                       cfg_symbols = [''BTCUSDT''], cfg_weight = Finite 0.4\<rparr>),
      (''mean-reversion'', \<lparr>cfg_id = ''mean-reversion'', cfg_enabled = True,
                       cfg_symbols = [''BTCUSDT''], cfg_weight = Finite 0.3\<rparr>),
      (''funding-arbitrage'', \<lparr>cfg_id = ''funding-arbitrage'', cfg_enabled = True,
                       cfg_symbols = [''BTCUSDT''], cfg_weight = Finite 0.3\<rparr>)]"

definition demo_signal :: "action \<Rightarrow> real \<Rightarrow> string \<Rightarrow> Signal" where
  "demo_signal a c src =
     \<lparr>sig_symbol = ''BTCUSDT'', sig_action = a, sig_confidence = Finite c,
      sig_targetPrice = None, sig_stopLoss = None, sig_strategy = src, sig_timestamp = 0\<rparr>"

definition demo_limits :: RiskLimits where
  "demo_limits =
     \<lparr>dailyLossLimit = Finite 5, maxLeverage = Finite 10, maxPositionSize = Finite 30,
      lim_maxDrawdown = Finite 15, maxOpenPositions = Finite 5, concentrationLimit = Finite 40,
      liquidationBuffer = Finite 20\<rparr>"

definition demo_metrics :: "real \<Rightarrow> bool \<Rightarrow> RiskMetrics" where
  "demo_metrics tb allowed =
     \<lparr>totalBalance = Finite tb, availableBalance = Finite tb, totalUnrealizedPnl = Finite 0,
      rm_dailyPnL = Finite 0, rm_maxDrawdown = Finite 0,
      riskLevel = (if allowed then LOW else CRITICAL), isTradeAllowed = allowed,
      marginUsage = Finite 0, liquidationRisk = Finite 0\<rparr>"

definition demo_risk_state :: "RiskMetrics option \<Rightarrow> risk_state" where
  "demo_risk_state m =
     \<lparr>riskLimits = demo_limits, currentRiskMetrics = m, positions = [],
      dailyPnL = Finite 0, maxDrawdown = Finite 0, balanceHistory = []\<rparr>"

definition demo_risk_env :: "real \<Rightarrow> risk_env" where
  "demo_risk_env pnl =
     \<lparr>env_balance = Some (Finite 10000, Finite 8000), env_positions = Some [],
      env_dailyPnl = Some (Finite pnl)\<rparr>"

definition demo_request :: "position_side \<Rightarrow> real \<Rightarrow> real \<Rightarrow> real \<Rightarrow> position_data" where
  "demo_request side q lev p =
     \<lparr>pd_symbol = ''BTCUSDT'', pd_side = side, pd_size = Finite q, pd_leverage = Finite lev,
      pd_price = Finite p\<rparr>"

text \<open>
  Collaborators of the execution service that all answer: a cached price of 10000, an
  empty orders table, an exchange that cancels and closes but knows no order and holds no
  position. The service state starts a session with a balance of 100000.
\<close>

definition demo_exec_env :: exec_env where
  "demo_exec_env =
     \<lparr>env_marketPrice = (\<lambda>_. Some (Some (Finite 10000))),
      env_redisSetOk = (\<lambda>_. True),
      env_dbOrder = (\<lambda>_. Some None),
      env_dbWriteOk = (\<lambda>_. True),
      env_exchangeOrder = (\<lambda>_. None),
      env_exchangeCancelOk = (\<lambda>_. True),
      env_exchangeCloseOk = (\<lambda>_. True),
      env_exchangeCreate = (\<lambda>_. None),
      env_exchangePositions = Some [],
      env_newId = (\<lambda>n. ''sim_'' @ replicate n (CHR ''i''))\<rparr>"

definition demo_exec_state ::
  "bool \<Rightarrow> (string \<times> OrderExecution) list \<Rightarrow> (string \<times> Order) list \<Rightarrow> exec_state" where
  "demo_exec_state sim pend hist =
     \<lparr>simulationMode = sim, pendingOrders = pend, orderHistory = hist, isExecuting = True,
      executionInterval = True, simulatedBalance = Finite 100000, idCounter = 0\<rparr>"

definition demo_order :: "string \<Rightarrow> order_side \<Rightarrow> real \<Rightarrow> real \<Rightarrow> Order" where
  "demo_order oid side q p =
     \<lparr>ord_id = oid, ord_symbol = ''BTCUSDT'', ord_side = side, ord_type = MARKET,
      ord_quantity = Finite q, ord_price = Some (Finite p), ord_status = FILLED,
      ord_executedQty = Finite q, ord_averagePrice = Some (Finite p)\<rparr>"

definition demo_params :: "order_side \<Rightarrow> real \<Rightarrow> order_params" where
  "demo_params side q =
     \<lparr>op_symbol = ''BTCUSDT'', op_side = side, op_type = MARKET, op_quantity = Finite q,
      op_price = None\<rparr>"

definition demo_tracking :: "string \<Rightarrow> string \<times> OrderExecution" where
  "demo_tracking oid = (oid, \<lparr>oe_orderId = oid, oe_status = PENDING, oe_attempts = 0\<rparr>)"

section \<open>Risk engine: classification, admission, sizing\<close>

lemma js_mul_commute: "js_mul a b = js_mul b a"
  by (cases a; cases b) simp_all

lemma js_abs_div_neg: "js_abs (js_div (js_neg x) b) = js_abs (js_div x b)"
  by (cases x; cases b) simp_all

lemma determineRiskLevel_spec:
  "determineRiskLevel st tb u mu
     = spec_riskLevel (dailyLossPercent st tb) (dailyLossLimit (riskLimits st)) mu"
  by (simp add: determineRiskLevel_def spec_riskLevel_def dailyLossPercent_def Let_def
        js_mul_commute)

text \<open>
  Claim C4. Every recomputation of the risk snapshot that obtains the balance stores a
  snapshot whose risk level is the threshold classification of the daily loss percentage
  and the margin usage (CRITICAL above 0.8 of the daily loss limit or above 80, HIGH above
  0.6 of the limit or above 60, MEDIUM above 0.3 of the limit or above 40, LOW otherwise),
  and whose trade-allowed flag is false exactly when that level is CRITICAL.
\<close>

theorem updateRiskMetrics_level:
  assumes "env_balance env = Some b"
  shows "\<exists>m. currentRiskMetrics (updateRiskMetrics env st) = Some m
           \<and> riskLevel m
               = spec_riskLevel
                   (dailyLossPercent (updateRiskMetrics env st) (totalBalance m))
                   (dailyLossLimit (riskLimits (updateRiskMetrics env st))) (marginUsage m)
           \<and> isTradeAllowed m = (riskLevel m \<noteq> CRITICAL)"
  using assms
  by (cases b)
     (simp add: updateRiskMetrics_def Let_def determineRiskLevel_spec dailyLossPercent_def)

text \<open>
  Witness for C4: with a balance of 10000 and a daily PnL of -450 the loss percentage is
  4.5, above 0.8 of the limit 5, so the snapshot is CRITICAL and trading is blocked.
\<close>

theorem updateRiskMetrics_level_witness:
  "env_balance (demo_risk_env (-450)) = Some (Finite 10000, Finite 8000)
   \<and> (\<exists>m. currentRiskMetrics (updateRiskMetrics (demo_risk_env (-450)) (demo_risk_state None))
             = Some m
          \<and> riskLevel m = CRITICAL \<and> \<not> isTradeAllowed m)"
proof -
  let ?st = "updateRiskMetrics (demo_risk_env (-450)) (demo_risk_state None)"
  have h: "env_balance (demo_risk_env (-450)) = Some (Finite 10000, Finite 8000)"
    by (simp add: demo_risk_env_def)
  have l: "dailyLossLimit (riskLimits ?st) = Finite 5"
    by (simp add: updateRiskMetrics_def demo_risk_env_def demo_risk_state_def demo_limits_def
          Let_def loadCurrentPositions_def calculateDailyPnL_def updateBalanceHistory_def
          calculateMaxDrawdown_def js_or_def)
  have d: "dailyPnL ?st = Finite (-450)"
    by (simp add: updateRiskMetrics_def demo_risk_env_def demo_risk_state_def demo_limits_def
          Let_def loadCurrentPositions_def calculateDailyPnL_def updateBalanceHistory_def
          calculateMaxDrawdown_def js_or_def)
  have t: "map_option totalBalance (currentRiskMetrics ?st) = Some (Finite 10000)"
    by (simp add: updateRiskMetrics_def demo_risk_env_def demo_risk_state_def Let_def js_or_def)
  from updateRiskMetrics_level[OF h, of "demo_risk_state None"] obtain m where
    m: "currentRiskMetrics ?st = Some m"
      "riskLevel m = spec_riskLevel (dailyLossPercent ?st (totalBalance m))
                       (dailyLossLimit (riskLimits ?st)) (marginUsage m)"
      "isTradeAllowed m = (riskLevel m \<noteq> CRITICAL)" by blast
  have tb: "totalBalance m = Finite 10000" using t m(1) by simp
  have "riskLevel m = CRITICAL"
    using m(2) by (simp add: l tb dailyLossPercent_def d spec_riskLevel_def)
  with m h show ?thesis by simp
qed

text \<open>
  Claim C10. The classification depends on the daily PnL only through its absolute
  value: for every balance, margin usage and value x, the level computed with a daily PnL
  of -x is the level computed with a daily PnL of x, so a gain is classified like a loss
  of the same size.
\<close>

theorem determineRiskLevel_sign_blind:
  "determineRiskLevel (st\<lparr>dailyPnL := js_neg x\<rparr>) tb u mu
     = determineRiskLevel (st\<lparr>dailyPnL := x\<rparr>) tb u mu"
  by (simp add: determineRiskLevel_def js_abs_div_neg)

text \<open>
  Claim C5, as stated, at an explicit input: with a snapshot whose trade-allowed flag is
  false and a total balance of 1000, the check of a LONG position of quantity 1 at price
  100 returns the stop-loss 0, not 100 - (0.02 * 1000) / 1 = 80.
\<close>

theorem validatePosition_stopLoss_counterexample:
  "ra_stopLoss (validatePosition (demo_risk_state (Some (demo_metrics 1000 False)))
                  (demo_request LONG 1 5 100)) = Finite 0
   \<and> Finite 0 \<noteq> Finite (100 - (0.02 * 1000) / 1)"
  by (simp add: validatePosition_def demo_risk_state_def demo_metrics_def demo_request_def)

text \<open>
  Claim C5, amended. For every admission check with a positive quantity: when the
  current snapshot allows trading, the assessment carries the stop-loss
  price - (0.02 * totalBalance) / quantity for LONG and price + (0.02 * totalBalance) /
  quantity for SHORT, also when it rejects for leverage or position size; when there is
  no snapshot or its trade-allowed flag is false, the check returns at once a CRITICAL
  rejection whose stop-loss is 0.
\<close>

theorem validatePosition_stopLoss:
  assumes "pd_size pd = Finite q" and "0 < q" and "pd_price pd = Finite p"
  shows "(\<forall>m tb. currentRiskMetrics st = Some m \<and> isTradeAllowed m
                  \<and> totalBalance m = Finite tb \<longrightarrow>
             ra_stopLoss (validatePosition st pd)
               = Finite (if pd_side pd = LONG then p - (0.02 * tb) / q
                         else p + (0.02 * tb) / q))
       \<and> (currentRiskMetrics st = None
            \<or> (\<exists>m. currentRiskMetrics st = Some m \<and> \<not> isTradeAllowed m) \<longrightarrow>
             ra_stopLoss (validatePosition st pd) = Finite 0
             \<and> \<not> isAllowed (validatePosition st pd)
             \<and> ra_riskLevel (validatePosition st pd) = CRITICAL)"
  using assms
  by (auto simp add: validatePosition_def Let_def js_or_def js_sub_def)

text \<open>
  Witness for C5: with trading allowed and a balance of 1000, a LONG request of quantity 1
  at 100 with leverage 15 is rejected for its leverage and still carries the stop-loss 80;
  the SHORT request carries 120; with trading blocked the stop-loss is 0.
\<close>

theorem validatePosition_stopLoss_witness:
  "ra_stopLoss (validatePosition (demo_risk_state (Some (demo_metrics 1000 True)))
                  (demo_request LONG 1 15 100)) = Finite 80
   \<and> \<not> isAllowed (validatePosition (demo_risk_state (Some (demo_metrics 1000 True)))
                  (demo_request LONG 1 15 100))
   \<and> ra_stopLoss (validatePosition (demo_risk_state (Some (demo_metrics 1000 True)))
                  (demo_request SHORT 1 5 100)) = Finite 120
   \<and> ra_stopLoss (validatePosition (demo_risk_state (Some (demo_metrics 1000 False)))
                  (demo_request LONG 1 5 100)) = Finite 0"
  using validatePosition_stopLoss[of "demo_request LONG 1 15 100" 1 100
          "demo_risk_state (Some (demo_metrics 1000 True))"]
        validatePosition_stopLoss[of "demo_request SHORT 1 5 100" 1 100
          "demo_risk_state (Some (demo_metrics 1000 True))"]
        validatePosition_stopLoss[of "demo_request LONG 1 5 100" 1 100
          "demo_risk_state (Some (demo_metrics 1000 False))"]
  by (simp add: demo_request_def demo_risk_state_def demo_metrics_def)
     (simp add: validatePosition_def demo_limits_def Let_def)

text \<open>
  Claim C8. Position sizing fails, with a RiskError and nothing else, exactly when no
  risk snapshot is held; with a snapshot it returns a proposal. A signal handled by the
  execution service without a sizing reply (which is what the failure leaves it with)
  changes nothing: no order is recorded or tracked.
\<close>

theorem calculateOptimalPositionSize_fails_iff:
  "((\<exists>e. calculateOptimalPositionSize dl st sg p = Inl e) \<longleftrightarrow> currentRiskMetrics st = None)
   \<and> (\<forall>e. calculateOptimalPositionSize dl st sg p = Inl e \<longrightarrow> e = RiskError)
   \<and> (currentRiskMetrics st \<noteq> None \<longrightarrow> (\<exists>ps. calculateOptimalPositionSize dl st sg p = Inr ps))
   \<and> (sig_action sg \<noteq> CLOSE \<longrightarrow> handleTradingSignal env None xst sg = xst)"
  by (auto simp add: calculateOptimalPositionSize_def handleTradingSignal_def Let_def
        split: option.splits)

text \<open>
  Witness for C8: without a snapshot the sizing of a BUY signal of confidence 80 fails and
  the signal creates no order; with a balance of 10000, a price of 50000, default leverage
  5 and the default limits the proposal is the size 0.0032 at leverage 7 with stop-loss
  49000.
\<close>

theorem calculateOptimalPositionSize_fails_iff_witness:
  "calculateOptimalPositionSize (Finite 5) (demo_risk_state None)
       (demo_signal BUY 80 ''aggregated'') (Finite 50000) = Inl RiskError
   \<and> handleTradingSignal demo_exec_env None (demo_exec_state True [] [])
       (demo_signal BUY 80 ''aggregated'') = demo_exec_state True [] []
   \<and> calculateOptimalPositionSize (Finite 5) (demo_risk_state (Some (demo_metrics 10000 True)))
        (demo_signal BUY 80 ''aggregated'') (Finite 50000)
       = Inr \<lparr>ps_size = Finite 0.0032, ps_leverage = Finite 7, ps_stopLoss = Finite 49000,
              ps_margin = Finite (160 / 7)\<rparr>"
  using calculateOptimalPositionSize_fails_iff[of "Finite 5" "demo_risk_state None"
          "demo_signal BUY 80 ''aggregated''" "Finite 50000" demo_exec_env
          "demo_exec_state True [] []"]
        calculateOptimalPositionSize_fails_iff[of "Finite 5"
          "demo_risk_state (Some (demo_metrics 10000 True))"
          "demo_signal BUY 80 ''aggregated''" "Finite 50000" demo_exec_env
          "demo_exec_state True [] []"]
  by (simp add: calculateOptimalPositionSize_def demo_risk_state_def demo_metrics_def
        demo_signal_def demo_limits_def Let_def js_min_def js_sub_def)

section \<open>Signal aggregation: the decision and its confidence\<close>

lemma group_insert_nonempty: "group_insert s g \<noteq> []"
  by (cases g) (auto split: if_splits)

lemma groupSignals_nonempty: "sigs \<noteq> [] \<Longrightarrow> groupSignals sigs \<noteq> []"
  unfolding groupSignals_def
  by (induction sigs rule: rev_induct) (simp_all add: group_insert_nonempty)



lemma foldl_choice_mem: "foldl (\<lambda>a b. if P a b then a else b) x xs \<in> set (x # xs)"
  by (induction xs arbitrary: x) (auto split: if_splits)

lemma bestActionOf_Some:
  assumes "scores \<noteq> []"
  shows "\<exists>best. bestActionOf scores = Some best \<and> best \<in> fst ` set scores"
proof (cases scores)
  case Nil
  with assms show ?thesis by simp
next
  case (Cons p ps)
  have "foldl (\<lambda>a b. if js_gt (scoreOf scores a) (scoreOf scores b) then a else b)
          (fst p) (map fst ps) \<in> set (fst p # map fst ps)"
    by (rule foldl_choice_mem)
  then show ?thesis using Cons by (simp add: bestActionOf_def)
qed

lemma bestActionOf_mem: "bestActionOf scores = Some best \<Longrightarrow> best \<in> fst ` set scores"
  using bestActionOf_Some[of scores] by (cases scores) (auto simp: bestActionOf_def)

lemma actionScores_keys: "fst ` set (actionScores cfgs g) = fst ` set g"
  by (force simp: actionScores_def)

lemma actionScores_nonempty: "g \<noteq> [] \<Longrightarrow> actionScores cfgs g \<noteq> []"
  by (simp add: actionScores_def)

lemma map_of_key_Some: "k \<in> fst ` set xs \<Longrightarrow> \<exists>v. map_of xs k = Some v"
  by (metis domD dom_map_of_conv_image_fst)

lemma best_group_defined:
  assumes "bestActionOf (actionScores cfgs (groupSignals sigs)) = Some best"
  shows "\<exists>ss. map_of (groupSignals sigs) best = Some ss"
  using bestActionOf_mem[OF assms] by (simp add: actionScores_keys map_of_key_Some)


text \<open>
  Claim C7. Signal aggregation always returns a decision. If the decision carries a
  resolved signal, the confidence of that signal is the confidence of the decision, it is
  strictly greater than 50, and its action is not HOLD. Otherwise (the confidence is not
  above 50, or the best action is HOLD) the resolved signal is null and the decision
  carries the computed confidence: the one computed from the best score and the maximal
  possible score, or 0 for an empty signal list.
\<close>

theorem aggregateSignals_resolved:
  "\<exists>d. aggregateSignals cfgs now symb sigs = Inr d
      \<and> (\<forall>s. aggregatedSignal d = Some s \<longrightarrow>
             js_gt (sig_confidence s) (Finite 50) \<and> sig_action s \<noteq> HOLD
             \<and> sig_confidence s = agg_confidence d)
      \<and> (aggregatedSignal d = None \<longleftrightarrow>
             \<not> (js_gt (agg_confidence d) (Finite 50)
                \<and> bestActionOf (actionScores cfgs (groupSignals sigs)) \<noteq> Some HOLD))
      \<and> (\<forall>best. bestActionOf (actionScores cfgs (groupSignals sigs)) = Some best
                  \<and> sigs \<noteq> [] \<longrightarrow>
             agg_confidence d
               = aggConfidence (scoreOf (actionScores cfgs (groupSignals sigs)) best)
                   (maxPossibleScore cfgs symb))
      \<and> (sigs = [] \<longrightarrow> agg_confidence d = Finite 0)"
proof (cases "sigs = []")
  case True
  have "aggregateSignals cfgs now symb [] =
          Inr \<lparr>agg_symbol = symb, agg_signals = [], aggregatedSignal = None,
               agg_confidence = Finite 0, agg_timestamp = now\<rparr>"
    by (simp add: aggregateSignals_def)
  with True show ?thesis by simp
next
  case False
  let ?scores = "actionScores cfgs (groupSignals sigs)"
  obtain best where b: "bestActionOf ?scores = Some best"
    using bestActionOf_Some[OF actionScores_nonempty[OF groupSignals_nonempty[OF False]]]
    by blast
  obtain ss where g: "map_of (groupSignals sigs) best = Some ss"
    using best_group_defined[OF b] by blast
  let ?c = "aggConfidence (scoreOf ?scores best) (maxPossibleScore cfgs symb)"
  show ?thesis
  proof (cases "js_gt ?c (Finite 50) \<and> best \<noteq> HOLD")
    case True
    with False b g have
      "aggregateSignals cfgs now symb sigs =
         Inr \<lparr>agg_symbol = symb, agg_signals = sigs,
              aggregatedSignal = Some
                \<lparr>sig_symbol = symb, sig_action = best, sig_confidence = ?c,
                 sig_targetPrice = averageOf sig_targetPrice ss,
                 sig_stopLoss = averageOf sig_stopLoss ss,
                 sig_strategy = ''aggregated'', sig_timestamp = now\<rparr>,
              agg_confidence = ?c, agg_timestamp = now\<rparr>"
      by (simp add: aggregateSignals_def Let_def)
    with True False b show ?thesis by auto
  next
    case no: False
    with False b have
      "aggregateSignals cfgs now symb sigs =
         Inr \<lparr>agg_symbol = symb, agg_signals = sigs, aggregatedSignal = None,
              agg_confidence = ?c, agg_timestamp = now\<rparr>"
      by (auto simp add: aggregateSignals_def Let_def)
    with no False b show ?thesis by auto
  qed
qed

lemma demo_scores:
  "actionScores demo_configs
     (groupSignals [demo_signal BUY 90 ''momentum'', demo_signal BUY 85 ''mean-reversion'',
                    demo_signal BUY 10 ''funding-arbitrage'']) = [(BUY, Finite 64.5)]"
  by (simp add: groupSignals_def actionScores_def actionScore_def signalWeight_def
        demo_signal_def demo_configs_def js_or_def)

text \<open>
  Witness for C7: the three default strategies emit BUY at 90, 85 and 10; the score is 64.5
  of a possible 100, and the decision carries a resolved BUY signal of confidence 64.5.
\<close>

theorem aggregateSignals_resolved_witness:
  "\<exists>d. aggregateSignals demo_configs 0 ''BTCUSDT''
          [demo_signal BUY 90 ''momentum'', demo_signal BUY 85 ''mean-reversion'',
           demo_signal BUY 10 ''funding-arbitrage''] = Inr d
      \<and> agg_confidence d = Finite 64.5
      \<and> (\<exists>s. aggregatedSignal d = Some s \<and> sig_action s = BUY
              \<and> sig_confidence s = Finite 64.5 \<and> js_gt (sig_confidence s) (Finite 50))"
proof -
  let ?sigs = "[demo_signal BUY 90 ''momentum'', demo_signal BUY 85 ''mean-reversion'',
                demo_signal BUY 10 ''funding-arbitrage'']"
  have b: "bestActionOf (actionScores demo_configs (groupSignals ?sigs)) = Some BUY"
    by (simp add: demo_scores bestActionOf_def)
  have c: "aggConfidence (scoreOf (actionScores demo_configs (groupSignals ?sigs)) BUY)
             (maxPossibleScore demo_configs ''BTCUSDT'') = Finite 64.5"
  proof -
    have sv: "scoreOf (actionScores demo_configs (groupSignals ?sigs)) BUY = Finite 64.5"
      by (simp add: demo_scores scoreOf_def)
    have mp: "maxPossibleScore demo_configs ''BTCUSDT'' = Finite 100"
      by (simp add: maxPossibleScore_def demo_configs_def)
    show ?thesis by (simp add: sv mp aggConfidence_def js_min_def)
  qed
  from aggregateSignals_resolved[of demo_configs 0 "''BTCUSDT''" ?sigs]
  obtain d where d: "aggregateSignals demo_configs 0 ''BTCUSDT'' ?sigs = Inr d"
    and r: "\<forall>s. aggregatedSignal d = Some s \<longrightarrow>
              js_gt (sig_confidence s) (Finite 50) \<and> sig_action s \<noteq> HOLD
              \<and> sig_confidence s = agg_confidence d"
    and n: "aggregatedSignal d = None \<longleftrightarrow>
              \<not> (js_gt (agg_confidence d) (Finite 50)
                 \<and> bestActionOf (actionScores demo_configs (groupSignals ?sigs)) \<noteq> Some HOLD)"
    and k: "\<forall>best. bestActionOf (actionScores demo_configs (groupSignals ?sigs)) = Some best
                   \<and> ?sigs \<noteq> [] \<longrightarrow>
              agg_confidence d
                = aggConfidence (scoreOf (actionScores demo_configs (groupSignals ?sigs)) best)
                    (maxPossibleScore demo_configs ''BTCUSDT'')"
    and e: "?sigs = [] \<longrightarrow> agg_confidence d = Finite 0"
    by (elim exE conjE)
  have conf: "agg_confidence d = Finite 64.5" using k b c by simp
  then have "aggregatedSignal d \<noteq> None" using n b by simp
  then obtain s where s: "aggregatedSignal d = Some s" by blast
  have a: "sig_action s = BUY"
    using d s b
    by (auto simp add: aggregateSignals_def Let_def split: option.splits if_splits)
  from r s conf have "sig_confidence s = Finite 64.5" "js_gt (sig_confidence s) (Finite 50)"
    by simp_all
  with d conf s a show ?thesis by blast
qed

lemma aggConfidence_zero_max:
  "js_gt x (Finite 0) \<Longrightarrow> aggConfidence x (Finite 0) = Finite 100"
  by (cases x) (simp_all add: aggConfidence_def js_min_def)

text \<open>
  Claim C9. When the enabled configurations that list the instrument have total weight 0
  (the maximal possible score is 0) and the weighted score of the best action is positive,
  the returned confidence is exactly 100, and a resolved signal of that action and
  confidence is emitted whenever the best action is not HOLD.
\<close>

theorem aggregateSignals_zero_total_weight:
  assumes "sigs \<noteq> []"
    and "maxPossibleScore cfgs symb = Finite 0"
    and "bestActionOf (actionScores cfgs (groupSignals sigs)) = Some best"
    and "js_gt (scoreOf (actionScores cfgs (groupSignals sigs)) best) (Finite 0)"
  shows "\<exists>d. aggregateSignals cfgs now symb sigs = Inr d
           \<and> agg_confidence d = Finite 100
           \<and> (best \<noteq> HOLD \<longrightarrow>
                (\<exists>s. aggregatedSignal d = Some s \<and> sig_action s = best
                     \<and> sig_confidence s = Finite 100))"
proof -
  obtain ss where g: "map_of (groupSignals sigs) best = Some ss"
    using best_group_defined[OF assms(3)] by blast
  have c: "aggConfidence (scoreOf (actionScores cfgs (groupSignals sigs)) best) (Finite 0)
             = Finite 100"
    by (rule aggConfidence_zero_max[OF assms(4)])
  show ?thesis using assms(1,2,3) g c
    by (auto simp add: aggregateSignals_def Let_def)
qed

text \<open>
  Witness for C9: no configuration at all, one BUY signal of confidence 70 from a source
  without configuration. Its score is 70 * 0.33 = 23.1 against a maximal possible score
  of 0; the decision has confidence 100 and resolves to BUY.
\<close>

theorem aggregateSignals_zero_total_weight_witness:
  "[demo_signal BUY 70 ''momentum''] \<noteq> []
   \<and> maxPossibleScore [] ''BTCUSDT'' = Finite 0
   \<and> bestActionOf (actionScores [] (groupSignals [demo_signal BUY 70 ''momentum''])) = Some BUY
   \<and> scoreOf (actionScores [] (groupSignals [demo_signal BUY 70 ''momentum''])) BUY = Finite 23.1
   \<and> (\<exists>d. aggregateSignals [] 0 ''BTCUSDT'' [demo_signal BUY 70 ''momentum''] = Inr d
          \<and> agg_confidence d = Finite 100
          \<and> (\<exists>s. aggregatedSignal d = Some s \<and> sig_action s = BUY
                  \<and> sig_confidence s = Finite 100))"
proof -
  have sc: "actionScores [] (groupSignals [demo_signal BUY 70 ''momentum''])
              = [(BUY, Finite 23.1)]"
    by (simp add: groupSignals_def actionScores_def actionScore_def signalWeight_def
          demo_signal_def)
  have h1: "[demo_signal BUY 70 ''momentum''] \<noteq> []" by simp
  have h2: "maxPossibleScore [] ''BTCUSDT'' = Finite 0" by (simp add: maxPossibleScore_def)
  have h3: "bestActionOf (actionScores [] (groupSignals [demo_signal BUY 70 ''momentum'']))
              = Some BUY"
    by (simp add: sc bestActionOf_def)
  have v: "scoreOf (actionScores [] (groupSignals [demo_signal BUY 70 ''momentum''])) BUY
              = Finite 23.1"
    by (simp add: sc scoreOf_def)
  have h4: "js_gt (scoreOf (actionScores [] (groupSignals [demo_signal BUY 70 ''momentum''])) BUY)
              (Finite 0)"
    by (simp add: v)
  from aggregateSignals_zero_total_weight[OF h1 h2 h3 h4, of 0] h1 h2 h3 v
  show ?thesis by simp
qed



















section \<open>Order execution: simulated fills, reconciliation, emergency stop\<close>

lemma simulatedExecution_fee:
  "se_fee (simulatedExecution md ps oid)
     = js_mul (js_mul (op_quantity ps) (se_executedPrice (simulatedExecution md ps oid)))
         (Finite 0.0004)"
  by (simp add: simulatedExecution_def Let_def)

text \<open>
  What a simulated execution does to the ledger, for finite quantity q, executed price p
  and balance b: a BUY takes q * p plus the fee, a SELL adds q * p and no fee is taken.
\<close>

lemma simulateOrderExecution_ledger:
  assumes "env_marketPrice env (op_symbol ps) = Some md"
    and "op_quantity ps = Finite q"
    and "se_executedPrice (simulatedExecution md ps (env_newId env (idCounter st))) = Finite p"
    and "simulatedBalance st = Finite b"
  shows "se_fee (simulatedExecution md ps (env_newId env (idCounter st)))
           = Finite (0.0004 * q * p)
       \<and> simulatedBalance (fst (simulateOrderExecution env st ps))
           = Finite (if op_side ps = SideBUY then b - (q * p + 0.0004 * q * p) else b + q * p)"
  using assms
  by (simp add: simulateOrderExecution_def simulatedExecution_fee Let_def js_sub_def)

lemma demo_sell_execution:
  "simulatedExecution (Some (Finite 10000)) (demo_params SideSELL 1) oid
     = \<lparr>se_orderId = oid, se_symbol = ''BTCUSDT'', se_side = SideSELL,
        se_quantity = Finite 1, se_price = Finite 10000, se_executedPrice = Finite 9995,
        se_slippage = Finite 0.05, se_fee = Finite 3.998\<rparr>"
  by (simp add: simulatedExecution_def demo_params_def calculateSlippage_def
        applySlippage_def js_or_def js_max_def js_sub_def Let_def)

text \<open>
  Claim C1 at a SELL: a simulated market SELL of quantity 1 against a cached price of
  10000 executes at 9995 (slippage 0.05 percent) with a fee of 3.998. The balance goes
  from 100000 to 109995: it grows by q * p = 9995, not by q * p - fee = 9991.002.
\<close>

theorem simulateOrderExecution_sell_ledger:
  "se_executedPrice (simulatedExecution (Some (Finite 10000)) (demo_params SideSELL 1) ''sim_'')
     = Finite 9995
   \<and> se_fee (simulatedExecution (Some (Finite 10000)) (demo_params SideSELL 1) ''sim_'')
     = Finite (0.0004 * 1 * 9995)
   \<and> simulatedBalance (fst (simulateOrderExecution demo_exec_env (demo_exec_state True [] [])
                              (demo_params SideSELL 1)))
     = Finite (100000 + 1 * 9995)
   \<and> Finite (100000 + 1 * 9995) \<noteq> Finite (100000 + (1 * 9995 - 0.0004 * 1 * 9995))"
  by (simp add: simulateOrderExecution_def demo_sell_execution demo_exec_env_def Let_def)
     (simp add: demo_exec_state_def demo_params_def js_sub_def)

text \<open>
  One replayed fill on an existing position, for finite sizes and prices: the size moves
  by the filled quantity, and while it stays positive the entry price is recomputed from
  the new size minus the filled quantity. For a BUY that is the old size; for a SELL it
  is the old size minus twice the filled quantity.
\<close>

lemma replayOrder_existing:
  assumes "ord_status order = FILLED"
    and "map_of ps (ord_symbol order) = Some existing"
    and "pos_size existing = Finite sz" and "pos_entryPrice existing = Finite en"
    and "ord_executedQty order = Finite q" and "ord_averagePrice order = Some (Finite p)"
    and "0 < (if ord_side order = SideBUY then sz + q else sz - q)"
  shows "map_of (replayOrder ps order) (ord_symbol order)
           = Some (existing
               \<lparr>pos_size := Finite (if ord_side order = SideBUY then sz + q else sz - q),
                pos_entryPrice :=
                  Finite (if ord_side order = SideBUY
                          then (en * sz + p * q) / (sz + q)
                          else (en * (sz - 2 * q) + p * q) / (sz - q))\<rparr>)"
  using assms
  by (cases "ord_side order = SideBUY")
     (simp_all add: replayOrder_def Let_def js_sub_def AList.update_conv' algebra_simps)

lemma getSimulatedPositions_open:
  "\<forall>pos\<in>set (getSimulatedPositions st). js_gt (pos_size pos) (Finite 0)"
  by (simp add: getSimulatedPositions_def)

text \<open>
  Claim C6 at a SELL: a filled BUY of 2 at 100 followed by a filled SELL of 1 at 110 on the
  same instrument leaves a LONG position of size 1 whose entry price is
  (100 * (1 - 1) + 110 * 1) / 1 = 110, not (100 * 2 + 110 * 1) / 1 = 310.
\<close>

theorem getSimulatedPositions_sell_entry:
  "map (\<lambda>pos. (pos_side pos, pos_size pos, pos_entryPrice pos))
     (getSimulatedPositions
        (demo_exec_state True []
           [(''o1'', demo_order ''o1'' SideBUY 2 100), (''o2'', demo_order ''o2'' SideSELL 1 110)]))
     = [(LONG, Finite 1, Finite 110)]
   \<and> Finite 110 \<noteq> Finite ((100 * 2 + 110 * 1) / 1)"
  by (simp add: getSimulatedPositions_def demo_exec_state_def demo_order_def replayOrder_def
        js_sub_def Let_def)

lemma cancelOrder_snd:
  "snd (cancelOrder env s k)
     = ((\<exists>ord. getOrder env s k = Some (Some ord))
        \<and> (if simulationMode s then env_dbWriteOk env k else env_exchangeCancelOk env k))"
  by (simp add: cancelOrder_def Let_def split: option.splits)

lemma getOrder_cong:
  "orderHistory s' = orderHistory s \<Longrightarrow> simulationMode s' = simulationMode s
     \<Longrightarrow> getOrder env s' k = getOrder env s k"
  by (simp add: getOrder_def)

lemma cancelOrder_history:
  "orderHistory (fst (cancelOrder env s k0))
     = (case getOrder env s k0 of
          Some (Some ord) \<Rightarrow>
            if simulationMode s
            then AList.update k0 (ord\<lparr>ord_status := CANCELED\<rparr>) (orderHistory s)
            else orderHistory s
        | _ \<Rightarrow> orderHistory s)"
  by (simp add: cancelOrder_def Let_def split: option.splits)

lemma cancelOrder_fields:
  "simulationMode (fst (cancelOrder env s k)) = simulationMode s"
  "isExecuting (fst (cancelOrder env s k)) = isExecuting s"
  "executionInterval (fst (cancelOrder env s k)) = executionInterval s"
  by (simp_all add: cancelOrder_def Let_def split: option.splits)

lemma cancelOrder_pending:
  "pendingOrders (fst (cancelOrder env s k))
     = (if snd (cancelOrder env s k) then AList.delete k (pendingOrders s)
        else pendingOrders s)"
  by (simp add: cancelOrder_def Let_def split: option.splits)

lemma getOrder_found_cached:
  "map_of (orderHistory s) k = Some v \<Longrightarrow> getOrder env s k = Some (Some v)"
  by (simp add: getOrder_def)

lemma getOrder_other_key:
  assumes "k \<noteq> k0" and "orderHistory s' = AList.update k0 v (orderHistory s)"
    and "simulationMode s' = simulationMode s"
  shows "getOrder env s' k = getOrder env s k"
  using assms by (simp add: getOrder_def AList.update_conv')

lemma found_after_cancel:
  "(\<exists>ord. getOrder env (fst (cancelOrder env s k0)) k = Some (Some ord))
     = (\<exists>ord. getOrder env s k = Some (Some ord))"
proof (cases "\<exists>ord. getOrder env s k0 = Some (Some ord) \<and> simulationMode s")
  case False
  then have "orderHistory (fst (cancelOrder env s k0)) = orderHistory s"
    by (auto simp add: cancelOrder_history split: option.splits)
  then show ?thesis using getOrder_cong[OF _ cancelOrder_fields(1)] by simp
next
  case True
  then obtain ord where o: "getOrder env s k0 = Some (Some ord)" and sim: "simulationMode s"
    by blast
  have h: "orderHistory (fst (cancelOrder env s k0))
             = AList.update k0 (ord\<lparr>ord_status := CANCELED\<rparr>) (orderHistory s)"
    using o sim by (simp add: cancelOrder_history)
  show ?thesis
  proof (cases "k = k0")
    case True
    have "map_of (orderHistory (fst (cancelOrder env s k0))) k0
            = Some (ord\<lparr>ord_status := CANCELED\<rparr>)"
      by (simp add: h AList.update_conv')
    from getOrder_found_cached[OF this] o True show ?thesis by simp
  next
    case False
    from getOrder_other_key[OF False h cancelOrder_fields(1)] show ?thesis by simp
  qed
qed

text \<open>Whether the cancellation of an order succeeds is not changed by other cancellations.\<close>

lemma cancelOrder_stable:
  "snd (cancelOrder env (fst (cancelOrder env s k0)) k) = snd (cancelOrder env s k)"
  by (simp only: cancelOrder_snd found_after_cancel cancelOrder_fields(1))

lemma cancel_fold_fields:
  "simulationMode (foldl (\<lambda>s k. fst (cancelOrder env s k)) s ks) = simulationMode s"
  "isExecuting (foldl (\<lambda>s k. fst (cancelOrder env s k)) s ks) = isExecuting s"
  "executionInterval (foldl (\<lambda>s k. fst (cancelOrder env s k)) s ks) = executionInterval s"
  by (induction ks arbitrary: s) (simp_all add: cancelOrder_fields)

lemma cancel_fold_pending:
  assumes "\<forall>k. snd (cancelOrder env s k) = snd (cancelOrder env st k)"
  shows "pendingOrders (foldl (\<lambda>s k. fst (cancelOrder env s k)) s ks)
           = filter (\<lambda>p. \<not> (fst p \<in> set ks \<and> snd (cancelOrder env st (fst p))))
               (pendingOrders s)"
  using assms
proof (induction ks arbitrary: s)
  case Nil
  then show ?case by simp
next
  case (Cons k ks)
  have st: "\<forall>j. snd (cancelOrder env (fst (cancelOrder env s k)) j)
                = snd (cancelOrder env st j)"
    using Cons.prems by (simp add: cancelOrder_stable)
  show ?case
    using Cons.IH[OF st] Cons.prems
    by (auto simp add: cancelOrder_pending AList.delete_eq intro: filter_cong)
qed

text \<open>After the cancellation loop exactly the orders whose cancellation failed are tracked.\<close>

lemma cancelAllPending_pending:
  "pendingOrders (cancelAllPending env st)
     = filter (\<lambda>p. \<not> snd (cancelOrder env st (fst p))) (pendingOrders st)"
  unfolding cancelAllPending_def
  by (subst cancel_fold_pending[where st = st]) (auto intro: filter_cong)

lemma simulateOrderExecution_fields:
  "isExecuting (fst (simulateOrderExecution env s ps)) = isExecuting s"
  "executionInterval (fst (simulateOrderExecution env s ps)) = executionInterval s"
  by (simp_all add: simulateOrderExecution_def Let_def split: option.splits)

lemma createOrder_fields:
  "isExecuting (fst (createOrder env s ps)) = isExecuting s"
  "executionInterval (fst (createOrder env s ps)) = executionInterval s"
  by (simp_all add: createOrder_def Let_def split_beta simulateOrderExecution_fields
        split: option.splits)

lemma closePosition_fields:
  "isExecuting (fst (closePosition env s symb)) = isExecuting s"
  "executionInterval (fst (closePosition env s symb)) = executionInterval s"
  by (simp_all add: closePosition_def closeSimulatedPosition_def split_beta createOrder_fields
        split: option.splits sum.splits)

lemma closeEach_fields:
  "isExecuting (fst (closeEach env s ps)) = isExecuting s
   \<and> executionInterval (fst (closeEach env s ps)) = executionInterval s"
  by (induction ps arbitrary: s) (simp_all add: split_beta closePosition_fields)

lemma closeAllPositions_fields:
  "isExecuting (fst (closeAllPositions env s)) = isExecuting s"
  "executionInterval (fst (closeAllPositions env s)) = executionInterval s"
  by (simp_all add: closeAllPositions_def split_beta closeEach_fields split: option.splits)

lemma closeEach_live: "\<not> simulationMode s \<Longrightarrow> fst (closeEach env s ps) = s"
  by (induction ps) (simp_all add: closePosition_def split_beta)

lemma closeAllPositions_idle:
  assumes "\<not> simulationMode s \<or> getSimulatedPositions s = []"
  shows "fst (closeAllPositions env s) = s"
proof (cases "simulationMode s")
  case True
  with assms show ?thesis by (simp add: closeAllPositions_def getPositions_def)
next
  case False
  then show ?thesis
    by (simp add: closeAllPositions_def split_beta closeEach_live split: option.splits)
qed

lemma stopOrderExecution_halts:
  "\<not> isExecuting (stopOrderExecution s)"
  "(executionInterval s \<longrightarrow> isExecuting s) \<Longrightarrow> \<not> executionInterval (stopOrderExecution s)"
  "pendingOrders (stopOrderExecution s) = pendingOrders s"
  by (auto simp add: stopOrderExecution_def Let_def)

text \<open>The timer is armed only while the service is executing: kept by start and stop.\<close>

lemma timer_invariant:
  "(executionInterval s \<longrightarrow> isExecuting s)
     \<Longrightarrow> (executionInterval (startOrderExecution s) \<longrightarrow> isExecuting (startOrderExecution s))
         \<and> (executionInterval (stopOrderExecution s) \<longrightarrow> isExecuting (stopOrderExecution s))"
  by (auto simp add: startOrderExecution_def stopOrderExecution_def Let_def)

text \<open>
  Claim C2, as stated, at two explicit inputs. In live mode, an order that is tracked and
  cached but whose cancellation the exchange refuses is still tracked after the emergency
  stop. In simulated mode, with nothing tracked, an open position of 2 units and every
  collaborator answering, the emergency stop closes the position with a new order, which
  it leaves tracked.
\<close>

theorem emergencyStop_pending_counterexample:
  "pendingOrders (emergencyStop (demo_exec_env\<lparr>env_exchangeCancelOk := (\<lambda>_. False)\<rparr>)
       (demo_exec_state False [demo_tracking ''o1'']
          [(''o1'', demo_order ''o1'' SideBUY 2 5000)]))
     = [demo_tracking ''o1'']
   \<and> pendingOrders
       (emergencyStop (demo_exec_env\<lparr>env_marketPrice := (\<lambda>_. Some (Some (Finite 5000)))\<rparr>)
          (demo_exec_state True [] [(''o1'', demo_order ''o1'' SideBUY 2 5000)]))
     = [demo_tracking ''sim_'']
   \<and> [demo_tracking ''o1''] \<noteq> [] \<and> [demo_tracking ''sim_''] \<noteq> []"
proof -
  have a: "pendingOrders (emergencyStop (demo_exec_env\<lparr>env_exchangeCancelOk := (\<lambda>_. False)\<rparr>)
       (demo_exec_state False [demo_tracking ''o1'']
          [(''o1'', demo_order ''o1'' SideBUY 2 5000)])) = [demo_tracking ''o1'']"
    by (simp add: emergencyStop_def cancelAllPending_def cancelOrder_def getOrder_def
          closeAllPositions_def getPositions_def stopOrderExecution_def demo_exec_env_def
          demo_exec_state_def demo_tracking_def demo_order_def Let_def)
  have b: "pendingOrders
       (emergencyStop (demo_exec_env\<lparr>env_marketPrice := (\<lambda>_. Some (Some (Finite 5000)))\<rparr>)
          (demo_exec_state True [] [(''o1'', demo_order ''o1'' SideBUY 2 5000)]))
     = [demo_tracking ''sim_'']"
    by (simp add: emergencyStop_def cancelAllPending_def cancelOrder_def getOrder_def
          closeAllPositions_def getPositions_def stopOrderExecution_def demo_exec_env_def
          demo_exec_state_def demo_tracking_def demo_order_def Let_def
          getSimulatedPositions_def replayOrder_def closePosition_def
          closeSimulatedPosition_def createOrder_def simulateOrderExecution_def
          simulatedExecution_def calculateSlippage_def applySlippage_def js_max_def
          js_sub_def)
  show ?thesis using a b by simp
qed

text \<open>
  Claim C2, amended. For every starting state in which the timer is armed only while the
  service is executing, after the emergency stop the monitoring loop is halted (the
  service is not executing and no timer is armed). The pending-orders map is then empty
  only if every cancellation succeeded and close-all created no order: in live mode, and
  in simulated mode when no position is open after the cancellations, the map holds
  exactly the orders whose cancellation failed (the order was not found, or the
  collaborator call threw).
\<close>

theorem emergencyStop_outcome:
  assumes "executionInterval st \<longrightarrow> isExecuting st"
  shows "\<not> isExecuting (emergencyStop env st) \<and> \<not> executionInterval (emergencyStop env st)
         \<and> (\<not> simulationMode st \<or> getSimulatedPositions (cancelAllPending env st) = [] \<longrightarrow>
              pendingOrders (emergencyStop env st)
                = filter (\<lambda>p. \<not> snd (cancelOrder env st (fst p))) (pendingOrders st))
         \<and> ((\<not> simulationMode st \<or> getSimulatedPositions (cancelAllPending env st) = [])
              \<and> (\<forall>p\<in>set (pendingOrders st). snd (cancelOrder env st (fst p))) \<longrightarrow>
              pendingOrders (emergencyStop env st) = [])"
proof -
  let ?s1 = "cancelAllPending env st"
  let ?s2 = "fst (closeAllPositions env ?s1)"
  have f1: "isExecuting ?s1 = isExecuting st" "executionInterval ?s1 = executionInterval st"
    "simulationMode ?s1 = simulationMode st"
    by (simp_all add: cancelAllPending_def cancel_fold_fields)
  have inv: "executionInterval ?s2 \<longrightarrow> isExecuting ?s2"
    using assms f1 by (simp add: closeAllPositions_fields)
  have e: "emergencyStop env st = stopOrderExecution ?s2"
    by (simp add: emergencyStop_def Let_def)
  have halt: "\<not> isExecuting (emergencyStop env st)" "\<not> executionInterval (emergencyStop env st)"
    using stopOrderExecution_halts(1)[of ?s2] stopOrderExecution_halts(2)[OF inv] e
    by simp_all
  have pend: "pendingOrders (emergencyStop env st)
                = filter (\<lambda>p. \<not> snd (cancelOrder env st (fst p))) (pendingOrders st)"
    if "\<not> simulationMode st \<or> getSimulatedPositions ?s1 = []"
  proof -
    have "?s2 = ?s1" using that f1(3) by (intro closeAllPositions_idle) simp
    then show ?thesis by (simp add: e stopOrderExecution_halts(3) cancelAllPending_pending)
  qed
  have empty: "pendingOrders (emergencyStop env st) = []"
    if "\<not> simulationMode st \<or> getSimulatedPositions ?s1 = []"
      and "\<forall>p\<in>set (pendingOrders st). snd (cancelOrder env st (fst p))"
    using pend[OF that(1)] that(2) by simp
  show ?thesis using halt pend empty by blast
qed

text \<open>
  Witness for C2: in live mode, with one tracked and cached order that the exchange
  cancels and no open position, the emergency stop halts the loop and leaves the map
  empty.
\<close>

theorem emergencyStop_outcome_witness:
  "\<not> isExecuting (emergencyStop demo_exec_env
        (demo_exec_state False [demo_tracking ''o1'']
           [(''o1'', demo_order ''o1'' SideBUY 2 5000)]))
   \<and> \<not> executionInterval (emergencyStop demo_exec_env
        (demo_exec_state False [demo_tracking ''o1'']
           [(''o1'', demo_order ''o1'' SideBUY 2 5000)]))
   \<and> pendingOrders (emergencyStop demo_exec_env
        (demo_exec_state False [demo_tracking ''o1'']
           [(''o1'', demo_order ''o1'' SideBUY 2 5000)])) = []"
proof -
  let ?st = "demo_exec_state False [demo_tracking ''o1'']
               [(''o1'', demo_order ''o1'' SideBUY 2 5000)]"
  have i: "executionInterval ?st \<longrightarrow> isExecuting ?st" by (simp add: demo_exec_state_def)
  have m: "\<not> simulationMode ?st" by (simp add: demo_exec_state_def)
  have c: "\<forall>p\<in>set (pendingOrders ?st). snd (cancelOrder demo_exec_env ?st (fst p))"
    by (simp add: demo_exec_state_def demo_tracking_def cancelOrder_def getOrder_def
          demo_exec_env_def)
  from emergencyStop_outcome[OF i, of demo_exec_env] m c show ?thesis by blast
qed

end
